theory Spec2Isabelle
  imports Main
begin

section \<open>Documents and collections\<close>

text \<open>
  The two Mongoose models written by the controller share their identity fields. They are
  modelled as one base record with two extensions, so that code which touches only the
  shared fields (\<open>user.name = name\<close>, \<open>user.save()\<close>) reads the same for both.
  Field \<open>doc_id\<close> is Mongo's \<open>_id\<close>.
\<close>

record otp_field =
  code :: string
  expiresAt :: int

record account =
  doc_id :: nat
  name :: string
  email :: string
  password :: string
  pincode :: string
  isVerified :: bool

record approval = account +
  status :: string
  otp :: "otp_field option"

record user = account +
  voterId :: string
  publicKey :: string
  publicKeyIV :: string
  publicKeyAuthTag :: string
  privateKey :: string
  privateKeyIV :: string
  privateKeyAuthTag :: string
  privateKeyDerivationSalt :: string
  token :: string
  tokenIV :: string
  tokenAuthTag :: string

record admin =
  admin_id :: nat
  admin_email :: string

text \<open>
  A collection is the list of its documents in insertion order. \<open>findById\<close> and
  \<open>findOne({ email })\<close> return the first match; \<open>save()\<close> inserts a new document at the
  end and overwrites a loaded one in place (matched by \<open>_id\<close>);
  \<open>findByIdAndDelete\<close> removes the first match.
\<close>

definition findById :: "nat \<Rightarrow> 'a account_scheme list \<Rightarrow> 'a account_scheme option" where
  "findById i xs = find (\<lambda>d. doc_id d = i) xs"

definition findOne :: "string \<Rightarrow> 'a account_scheme list \<Rightarrow> 'a account_scheme option" where
  "findOne e xs = find (\<lambda>d. email d = e) xs"

definition findOneAdmin :: "string \<Rightarrow> admin list \<Rightarrow> admin option" where
  "findOneAdmin e xs = find (\<lambda>d. admin_email d = e) xs"

fun saveDoc :: "'a account_scheme \<Rightarrow> 'a account_scheme list \<Rightarrow> 'a account_scheme list" where
  "saveDoc d [] = [d]"
| "saveDoc d (x # xs) = (if doc_id x = doc_id d then d # xs else x # saveDoc d xs)"

fun findByIdAndDelete :: "nat \<Rightarrow> 'a account_scheme list \<Rightarrow> 'a account_scheme list" where
  "findByIdAndDelete i [] = []"
| "findByIdAndDelete i (x # xs) = (if doc_id x = i then xs else x # findByIdAndDelete i xs)"

section \<open>Collaborators outside the controller\<close>

text \<open>
  What the handlers take from the outside world is gathered in one record: the clock, the
  random sources, the bcrypt library, the Approval schema's index on \<open>email\<close> (the schema
  file is not part of the sources), the helpers \<open>generateCryptoFields\<close> and
  \<open>generateVoterId\<close>, the failures the store can raise on a write, and the mail
  transport.
\<close>

record crypto_fields =
  encryptedPublicKey :: string
  cf_publicKeyIV :: string
  cf_publicKeyAuthTag :: string
  encryptedPrivateKey :: string
  cf_privateKeyIV :: string
  cf_privateKeyAuthTag :: string
  encryptedToken :: string
  cf_tokenIV :: string
  cf_tokenAuthTag :: string
  salt :: string

record env =
  now :: int
  entropy :: nat
  genSalt :: string
  passwordSalt :: string
  bhash :: "string \<Rightarrow> string \<Rightarrow> string"
  bcompare :: "string \<Rightarrow> string \<Rightarrow> bool"
  newId :: nat
  newUserId :: nat
  uniqueEmailIndex :: bool
  generateCryptoFields :: "string \<Rightarrow> string + crypto_fields"
  generateVoterId :: string
  userSaveError :: "string option"
  pendingSaveError :: "string option"
  commitError :: "string option"
  mailError :: "string \<Rightarrow> string \<Rightarrow> string \<Rightarrow> string option"

section \<open>OTP.js\<close>

text \<open>
  Node's \<open>crypto.randomInt(min, max)\<close> returns an integer \<open>n\<close> with
  \<open>min <= n < max\<close>: the upper bound is exclusive. The random source is the raw draw
  \<open>r\<close>.
\<close>

definition randomInt :: "nat \<Rightarrow> nat \<Rightarrow> nat \<Rightarrow> nat" where
  "randomInt lo hi r = lo + r mod (hi - lo)"

definition digit :: "nat \<Rightarrow> char" where
  "digit d = ''0123456789'' ! d"

text \<open>\<open>Number.prototype.toString\<close> on a non-negative integer: its decimal digits.\<close>

fun toString :: "nat \<Rightarrow> string" where
  "toString n = (if n < 10 then [digit n] else toString (n div 10) @ [digit (n mod 10)])"

declare toString.simps [simp del]

text \<open>
  \<open>!user.otp || !user.otp.code\<close>: the sub-field is absent, or its code is the empty
  string.
\<close>

definition noOtp :: "approval \<Rightarrow> bool" where
  "noOtp u = (case otp u of None \<Rightarrow> True | Some f \<Rightarrow> code f = [])"

text \<open>
  The three functions of OTP.js work on a loaded document and the collection it is saved
  to; each returns what it returns or throws, the document as it stands in memory and the
  collection. The \<open>subject\<close> parameter of \<open>sendOtpToEmail\<close> is unused by its body.
\<close>

definition sendOtpToEmail ::
  "env \<Rightarrow> string \<Rightarrow> approval \<Rightarrow> approval list \<Rightarrow> string \<times> approval \<times> approval list" where
  "sendOtpToEmail e subject u coll =
    (let OTP = toString (randomInt 100000 999999 (entropy e));
         hashedOtp = bhash e OTP (genSalt e);
         u' = u\<lparr>otp := Some \<lparr>code = hashedOtp, expiresAt = now e + 5 * 60 * 1000\<rparr>\<rparr>
     in (OTP, u', saveDoc u' coll))"

definition verifyOTP ::
  "env \<Rightarrow> string \<Rightarrow> approval \<Rightarrow> approval list \<Rightarrow> (string + unit) \<times> approval \<times> approval list" where
  "verifyOTP e OTP u coll =
    (if OTP = ''1'' then
       (let u' = u\<lparr>isVerified := True, otp := None\<rparr> in (Inr (), u', saveDoc u' coll))
     else if noOtp u then (Inl ''No OTP pending for this user'', u, coll)
     else if now e > expiresAt (the (otp u)) then (Inl ''OTP expired'', u, coll)
     else if \<not> bcompare e OTP (code (the (otp u))) then (Inl ''OTP incorrect'', u, coll)
     else (let u' = u\<lparr>isVerified := True, otp := None\<rparr> in (Inr (), u', saveDoc u' coll)))"

definition checkOtp ::
  "env \<Rightarrow> string \<Rightarrow> approval \<Rightarrow> approval list \<Rightarrow> (string + bool) \<times> approval \<times> approval list" where
  "checkOtp e c u coll =
    (if c = ''1'' then (Inr True, u, coll)
     else if noOtp u then (Inl ''No OTP pending for this user'', u, coll)
     else if now e > expiresAt (the (otp u)) then (Inl ''OTP expired'', u, coll)
     else if \<not> bcompare e c (code (the (otp u))) then (Inr False, u, coll)
     else (Inr True, u, coll))"

section \<open>The store, the mail collaborator and what a handler answers\<close>

record db =
  users :: "user list"
  approvals :: "approval list"
  admins :: "admin list"

text \<open>
  The world a handler runs in: the committed store and the calls made so far to the mail
  collaborator (recipient address, subject, HTML body).
\<close>

record world =
  store :: db
  outbox :: "(string \<times> string \<times> string) list"

text \<open>
  What a handler leaves behind on \<open>res\<close>: the status code as last set (200 unless
  set), the JSON object sent, if any, as its key/value pairs, and the message of the
  \<open>Error\<close> thrown, if any. How a thrown error is rendered is up to the wrapper
  \<open>asyncHandler\<close>, which is not part of the controller.
\<close>

record hres =
  statusCode :: nat
  sent :: "(string \<times> string) list option"
  thrown :: "string option"

text \<open>JavaScript truthiness of a looked-up document and of an optional string.\<close>

definition truthy :: "'a option \<Rightarrow> bool" where
  "truthy x = (case x of None \<Rightarrow> False | Some _ \<Rightarrow> True)"

definition truthyStr :: "string option \<Rightarrow> bool" where
  "truthyStr x = (case x of None \<Rightarrow> False | Some s \<Rightarrow> s \<noteq> [])"

text \<open>
  Modelled from the spec: \<open>sendNotificationEmail\<close> is imported by the controller and its
  source is missing. The spec gives its interface,
  \<open>send(recipientRecord, subject, bodyHtml) -> success|failure\<close>. The call is recorded
  in the outbox; the transport decides whether it fails (\<open>Some\<close> the error message, which
  the source sees as a rejected promise).
\<close>

definition sendNotificationEmail ::
  "env \<Rightarrow> 'a account_scheme \<Rightarrow> string \<Rightarrow> string \<Rightarrow> world \<Rightarrow> string option \<times> world" where
  "sendNotificationEmail e u subject html w =
    (mailError e (email u) subject html,
     w\<lparr>outbox := outbox w @ [(email u, subject, html)]\<rparr>)"

section \<open>registerUser\<close>

text \<open>
  \<open>new Approval(...)\<close> draws a fresh \<open>_id\<close> (\<open>newId\<close>), and its first \<open>save()\<close> is an
  insert. When the Approval schema declares \<open>email\<close> unique, the insert of a second
  document with the same email is refused by the store and \<open>save()\<close> throws.
\<close>

definition registerUser ::
  "env \<Rightarrow> string \<Rightarrow> string \<Rightarrow> string \<Rightarrow> string \<Rightarrow> db \<Rightarrow> hres \<times> db" where
  "registerUser e nm em pw pin d =
    (if truthy (findOne em (users d)) \<or> truthy (findOneAdmin em (admins d)) then
       (\<lparr>statusCode = 400, sent = Some [(''message'', ''Email already exists'')],
         thrown = Some ''Email already exists''\<rparr>, d)
     else
       (let hashedPassword = bhash e pw (passwordSalt e);
            newPendingUser = \<lparr>doc_id = newId e, name = nm, email = em,
              password = hashedPassword, pincode = pin, isVerified = False,
              status = ''Pending'', otp = None\<rparr>
        in if uniqueEmailIndex e \<and> truthy (findOne em (approvals d)) then
             (\<lparr>statusCode = 200, sent = None,
               thrown = Some ''E11000 duplicate key error''\<rparr>, d)
           else
             (case sendOtpToEmail e ''OTP for Decentralized-Voting System'' newPendingUser
                     (approvals d @ [newPendingUser]) of
                (OTP, u', coll') \<Rightarrow>
                  (\<lparr>statusCode = 201,
                    sent = Some [(''message'', ''User registered, OTP sent''), (''email'', email u')],
                    thrown = None\<rparr>,
                   d\<lparr>approvals := coll'\<rparr>))))"

section \<open>approveUser\<close>

text \<open>
  The store's multi-document transaction: a session holds its own view of the store.
  Reads and writes made with the session go to the view; \<open>commitTransaction\<close> installs
  the view as the committed store, \<open>abortTransaction\<close> drops it.
\<close>

record session =
  inTransaction :: bool
  view :: db

definition startTransaction :: "db \<Rightarrow> session" where
  "startTransaction d = \<lparr>inTransaction = True, view = d\<rparr>"

definition abortTransaction :: "session \<Rightarrow> session" where
  "abortTransaction s = s\<lparr>inTransaction := False\<rparr>"

definition saveUserIn :: "user \<Rightarrow> session \<Rightarrow> session" where
  "saveUserIn u s = s\<lparr>view := (view s)\<lparr>users := users (view s) @ [u]\<rparr>\<rparr>"

definition savePendingIn :: "approval \<Rightarrow> session \<Rightarrow> session" where
  "savePendingIn p s = s\<lparr>view := (view s)\<lparr>approvals := saveDoc p (approvals (view s))\<rparr>\<rparr>"

definition commitTransaction :: "session \<Rightarrow> world \<Rightarrow> session \<times> world" where
  "commitTransaction s w = (s\<lparr>inTransaction := False\<rparr>, w\<lparr>store := view s\<rparr>)"

definition newUserOf :: "env \<Rightarrow> approval \<Rightarrow> crypto_fields \<Rightarrow> string \<Rightarrow> user" where
  "newUserOf e pendingUser cf vid =
    \<lparr>doc_id = newUserId e, name = name pendingUser, email = email pendingUser,
     password = password pendingUser, pincode = pincode pendingUser, isVerified = True,
     voterId = vid,
     publicKey = encryptedPublicKey cf, publicKeyIV = cf_publicKeyIV cf,
     publicKeyAuthTag = cf_publicKeyAuthTag cf,
     privateKey = encryptedPrivateKey cf, privateKeyIV = cf_privateKeyIV cf,
     privateKeyAuthTag = cf_privateKeyAuthTag cf,
     privateKeyDerivationSalt = salt cf,
     token = encryptedToken cf, tokenIV = cf_tokenIV cf, tokenAuthTag = cf_tokenAuthTag cf\<rparr>"

definition approvalMail :: "approval \<Rightarrow> string \<Rightarrow> string" where
  "approvalMail pendingUser vid =
    ''Dear '' @ name pendingUser @
    '', Your profile has been approved and you can login now. Your Voter ID is: <b>'' @
    vid @ ''</b>''"

text \<open>
  The body of the \<open>try\<close> block: either it throws (\<open>Inl\<close> the error's message) or it
  has answered (\<open>Inr\<close>); with it, the session and the world at that point. A failing
  write or commit is an error the store raises (\<open>userSaveError\<close>, \<open>pendingSaveError\<close>,
  \<open>commitError\<close>); the notification after the commit sits in a \<open>try\<close>/\<open>catch\<close> of its
  own that only logs.
\<close>

definition approveTry :: "env \<Rightarrow> nat \<Rightarrow> session \<Rightarrow> world \<Rightarrow> (string + hres) \<times> session \<times> world" where
  "approveTry e i s w =
    (case findById i (approvals (view s)) of
       None \<Rightarrow>
         (Inr \<lparr>statusCode = 404, sent = Some [(''message'', ''Pending user not found'')],
               thrown = None\<rparr>, abortTransaction s, w)
     | Some pendingUser \<Rightarrow>
         if \<not> isVerified pendingUser then
           (Inr \<lparr>statusCode = 400,
                 sent = Some [(''message'', ''User has not verified their OTP'')],
                 thrown = None\<rparr>, abortTransaction s, w)
         else
           (case generateCryptoFields e (password pendingUser) of
              Inl err \<Rightarrow> (Inl err, s, w)
            | Inr cf \<Rightarrow>
                (let vid = generateVoterId e;
                     newUser = newUserOf e pendingUser cf vid
                 in case userSaveError e of
                      Some err \<Rightarrow> (Inl err, s, w)
                    | None \<Rightarrow>
                        (let s1 = saveUserIn newUser s;
                             pendingUser' = pendingUser\<lparr>status := ''Accepted''\<rparr>
                         in case pendingSaveError e of
                              Some err \<Rightarrow> (Inl err, s1, w)
                            | None \<Rightarrow>
                                (let s2 = savePendingIn pendingUser' s1
                                 in case commitError e of
                                      Some err \<Rightarrow> (Inl err, s2, w)
                                    | None \<Rightarrow>
                                        (case commitTransaction s2 w of
                                           (s3, w1) \<Rightarrow>
                                             (Inr \<lparr>statusCode = 200,
                                                   sent = Some [(''message'', ''User approved and notified''),
                                                                (''voterId'', vid)],
                                                   thrown = None\<rparr>,
                                              s3,
                                              snd (sendNotificationEmail e pendingUser'
                                                     ''Account Approval Notification''
                                                     (approvalMail pendingUser' vid) w1))))))))"

definition approveUser :: "env \<Rightarrow> nat \<Rightarrow> world \<Rightarrow> hres \<times> world" where
  "approveUser e i w =
    (case approveTry e i (startTransaction (store w)) w of
       (Inr res, s, w') \<Rightarrow> (res, w')
     | (Inl err, s, w') \<Rightarrow>
         (let s' = (if inTransaction s then abortTransaction s else s)
          in (\<lparr>statusCode = 500,
               sent = Some [(''message'', ''User approval failed''), (''error'', err)],
               thrown = None\<rparr>, w')))"

section \<open>rejectUser\<close>

definition rejectionMail :: "approval \<Rightarrow> string \<Rightarrow> string" where
  "rejectionMail pendingUser reason =
    ''Dear '' @ name pendingUser @ '', Your profile has been rejected. Reason: '' @ reason @
    ''. Please visit the office for further details.''"

definition rejectUser :: "env \<Rightarrow> nat \<Rightarrow> string option \<Rightarrow> world \<Rightarrow> hres \<times> world" where
  "rejectUser e i reason w =
    (case findById i (approvals (store w)) of
       None \<Rightarrow> (\<lparr>statusCode = 404, sent = None, thrown = Some ''Pending user not found''\<rparr>, w)
     | Some pendingUser \<Rightarrow>
         if \<not> truthyStr reason then
           (\<lparr>statusCode = 400, sent = None, thrown = Some ''Rejection reason is required''\<rparr>, w)
         else
           (case sendNotificationEmail e pendingUser ''Account Rejection Notification''
                   (rejectionMail pendingUser (the reason)) w of
              (Some err, w1) \<Rightarrow> (\<lparr>statusCode = 200, sent = None, thrown = Some err\<rparr>, w1)
            | (None, w1) \<Rightarrow>
                (\<lparr>statusCode = 200,
                  sent = Some [(''message'', ''User rejected, notified, and removed from database'')],
                  thrown = None\<rparr>,
                 w1\<lparr>store := (store w1)\<lparr>approvals := findByIdAndDelete i (approvals (store w1))\<rparr>\<rparr>)))"

section \<open>updateUserDetails\<close>






section \<open>The answers and the committed store, by name\<close>

text \<open>
  The JSON answers and thrown errors of the handlers, as the source writes them, and the
  store an approval leaves when both of its writes are committed.
\<close>

definition emailExists :: hres where
  "emailExists = \<lparr>statusCode = 400, sent = Some [(''message'', ''Email already exists'')],
     thrown = Some ''Email already exists''\<rparr>"

definition registered :: "string \<Rightarrow> hres" where
  "registered em = \<lparr>statusCode = 201,
     sent = Some [(''message'', ''User registered, OTP sent''), (''email'', em)], thrown = None\<rparr>"

definition approvalFailed :: "string \<Rightarrow> hres" where
  "approvalFailed err = \<lparr>statusCode = 500,
     sent = Some [(''message'', ''User approval failed''), (''error'', err)], thrown = None\<rparr>"

definition approved :: "string \<Rightarrow> hres" where
  "approved vid = \<lparr>statusCode = 200,
     sent = Some [(''message'', ''User approved and notified''), (''voterId'', vid)],
     thrown = None\<rparr>"

definition committed :: "env \<Rightarrow> approval \<Rightarrow> crypto_fields \<Rightarrow> db \<Rightarrow> db" where
  "committed e p cf d =
     d\<lparr>users := users d @ [newUserOf e p cf (generateVoterId e)],
       approvals := saveDoc (p\<lparr>status := ''Accepted''\<rparr>) (approvals d)\<rparr>"

definition missingReason :: hres where
  "missingReason = \<lparr>statusCode = 400, sent = None, thrown = Some ''Rejection reason is required''\<rparr>"

definition pendingNotFound :: hres where
  "pendingNotFound = \<lparr>statusCode = 404, sent = None, thrown = Some ''Pending user not found''\<rparr>"


section \<open>A concrete scenario\<close>

text \<open>
  Alice has registered with \<open>a@x.com\<close>; the code \<open>123456\<close> was issued to her and
  expires at time 2000. The toy bcrypt prefixes the salt. \<open>aliceVerified\<close> is her record after
  verification, \<open>bob\<close> an approved user, and the only admin is \<open>root@x.com\<close>.
\<close>

definition demoCrypto :: crypto_fields where
  "demoCrypto = \<lparr>encryptedPublicKey = ''pk'', cf_publicKeyIV = ''pkiv'', cf_publicKeyAuthTag = ''pktag'',
     encryptedPrivateKey = ''sk'', cf_privateKeyIV = ''skiv'', cf_privateKeyAuthTag = ''sktag'',
     encryptedToken = ''tok'', cf_tokenIV = ''tokiv'', cf_tokenAuthTag = ''toktag'', salt = ''salt''\<rparr>"

definition demoEnv :: env where
  "demoEnv = \<lparr>now = 1000, entropy = 23456, genSalt = ''s1'', passwordSalt = ''s2'',
     bhash = (\<lambda>s slt. slt @ s), bcompare = (\<lambda>s h. h = ''s1'' @ s),
     newId = 7, newUserId = 8, uniqueEmailIndex = True,
     generateCryptoFields = (\<lambda>pw. Inr demoCrypto), generateVoterId = ''V1'',
     userSaveError = None, pendingSaveError = None, commitError = None,
     mailError = (\<lambda>rcpt subject html. None)\<rparr>"

definition alice :: approval where
  "alice = \<lparr>doc_id = 1, name = ''Alice'', email = ''a@x.com'', password = ''s2pw123'',
     pincode = ''12345'', isVerified = False, status = ''Pending'',
     otp = Some \<lparr>code = ''s1123456'', expiresAt = 2000\<rparr>\<rparr>"

definition aliceVerified :: approval where
  "aliceVerified = alice\<lparr>isVerified := True, otp := None\<rparr>"

definition demoWorld :: world where
  "demoWorld = \<lparr>store = \<lparr>users = [], approvals = [aliceVerified],
                           admins = [\<lparr>admin_id = 0, admin_email = ''root@x.com''\<rparr>]\<rparr>,
                 outbox = []\<rparr>"

definition pendingDb :: db where
  "pendingDb = \<lparr>users = [], approvals = [alice],
                 admins = [\<lparr>admin_id = 0, admin_email = ''root@x.com''\<rparr>]\<rparr>"



section \<open>Facts about collections and decimal strings\<close>

lemma findById_saveDoc: "findById (doc_id d) (saveDoc d xs) = Some d"
  by (induction xs) (simp_all add: findById_def)

lemma findById_saveDoc_other: "j \<noteq> doc_id d \<Longrightarrow> findById j (saveDoc d xs) = findById j xs"
  by (induction xs) (auto simp: findById_def)

lemma length_saveDoc_found: "findById (doc_id d) xs = Some p \<Longrightarrow> length (saveDoc d xs) = length xs"
  by (induction xs) (auto simp: findById_def split: if_splits)

lemma digit_inj: "a < 10 \<Longrightarrow> b < 10 \<Longrightarrow> digit a = digit b \<Longrightarrow> a = b"
proof -
  assume "a < 10" "b < 10" "digit a = digit b"
  moreover have "distinct ''0123456789''" by simp
  ultimately show ?thesis
    unfolding digit_def by (simp add: nth_eq_iff_index_eq)
qed

lemma toString_nonempty: "toString n \<noteq> []"
  by (subst toString.simps) simp

lemma toString_inj: "toString a = toString b \<Longrightarrow> a = b"
proof (induction a arbitrary: b rule: toString.induct)
  case (1 n)
  show ?case
  proof (cases "n < 10")
    case True
    then have s: "toString n = [digit n]" by (subst toString.simps) simp
    show ?thesis
    proof (cases "b < 10")
      case True
      then have "toString b = [digit b]" by (subst toString.simps) simp
      with s "1.prems" \<open>n < 10\<close> True show ?thesis by (auto dest: digit_inj)
    next
      case False
      then have "toString b = toString (b div 10) @ [digit (b mod 10)]"
        by (subst toString.simps) simp
      with s "1.prems" toString_nonempty[of "b div 10"] show ?thesis by (cases "toString (b div 10)") auto
    qed
  next
    case False
    then have s: "toString n = toString (n div 10) @ [digit (n mod 10)]"
      by (subst toString.simps) simp
    show ?thesis
    proof (cases "b < 10")
      case True
      then have "toString b = [digit b]" by (subst toString.simps) simp
      with s "1.prems" toString_nonempty[of "n div 10"] show ?thesis by (cases "toString (n div 10)") auto
    next
      case b: False
      then have "toString b = toString (b div 10) @ [digit (b mod 10)]"
        by (subst toString.simps) simp
      with s "1.prems" have eq: "toString (n div 10) = toString (b div 10)"
        and d: "digit (n mod 10) = digit (b mod 10)" by auto
      from "1.IH"[OF False eq] have "n div 10 = b div 10" .
      moreover from d have "n mod 10 = b mod 10" by (auto dest!: digit_inj[rotated 2])
      ultimately show ?thesis by (metis div_mult_mod_eq)
    qed
  qed
qed

lemma toString_999999: "toString 999999 = ''999999''"
  by (simp add: toString.simps digit_def)

lemma randomInt_range: "lo < hi \<Longrightarrow> lo \<le> randomInt lo hi r \<and> randomInt lo hi r < hi"
proof -
  assume "lo < hi"
  then have "r mod (hi - lo) < hi - lo" by simp
  then show ?thesis unfolding randomInt_def by linarith
qed

lemma findById_Some_id: "findById i xs = Some p \<Longrightarrow> doc_id p = i"
  unfolding findById_def by (induction xs) (auto split: if_splits)


lemma truthy_findOne: "truthy (findOne em xs) \<longleftrightarrow> em \<in> set (map email xs)"
  unfolding truthy_def findOne_def by (induction xs) auto

lemma truthy_findOneAdmin: "truthy (findOneAdmin em xs) \<longleftrightarrow> em \<in> set (map admin_email xs)"
  unfolding truthy_def findOneAdmin_def by (induction xs) auto

lemma findOne_saveDoc_new:
  "em \<notin> set (map email xs) \<Longrightarrow> email d = em \<Longrightarrow> doc_id n = doc_id d \<Longrightarrow>
     findOne em (saveDoc d (xs @ [n])) = Some d"
  unfolding findOne_def by (induction xs) auto

lemma length_saveDoc_new:
  "doc_id n = doc_id d \<Longrightarrow> length (saveDoc d (xs @ [n])) = Suc (length xs)"
  by (induction xs) auto


section \<open>The handlers in normal form\<close>

lemma approveUser_cases:
  "approveUser e i w =
    (case findById i (approvals (store w)) of
       None \<Rightarrow> (\<lparr>statusCode = 404, sent = Some [(''message'', ''Pending user not found'')],
                  thrown = None\<rparr>, w)
     | Some p \<Rightarrow>
         if \<not> isVerified p then
           (\<lparr>statusCode = 400, sent = Some [(''message'', ''User has not verified their OTP'')],
             thrown = None\<rparr>, w)
         else
           (case generateCryptoFields e (password p) of
              Inl err \<Rightarrow> (approvalFailed err, w)
            | Inr cf \<Rightarrow>
                (case userSaveError e of
                   Some err \<Rightarrow> (approvalFailed err, w)
                 | None \<Rightarrow>
                     (case pendingSaveError e of
                        Some err \<Rightarrow> (approvalFailed err, w)
                      | None \<Rightarrow>
                          (case commitError e of
                             Some err \<Rightarrow> (approvalFailed err, w)
                           | None \<Rightarrow>
                               (approved (generateVoterId e),
                                \<lparr>store = committed e p cf (store w),
                                 outbox = outbox w @
                                   [(email p, ''Account Approval Notification'',
                                     approvalMail (p\<lparr>status := ''Accepted''\<rparr>) (generateVoterId e))]\<rparr>))))))"
  by (simp add: approveUser_def approveTry_def startTransaction_def abortTransaction_def
      saveUserIn_def savePendingIn_def commitTransaction_def sendNotificationEmail_def
      approvalFailed_def approved_def committed_def Let_def
      split: option.splits sum.splits)






section \<open>OTP manager\<close>

text \<open>
  C3. \<open>sendOtpToEmail\<close> stores on the record only the hash of the code, with
  \<open>expiresAt = now + 300000\<close> ms, and saves the record. The code it draws is a decimal
  number between 100000 and 999998: \<open>crypto.randomInt\<close> excludes its upper bound, so
  the code \<open>999999\<close> is never issued.
\<close>

theorem sendOtpToEmail_code_range:
  "case sendOtpToEmail e subject u coll of
     (OTP, u', coll') \<Rightarrow>
       OTP \<noteq> ''999999'' \<and>
       (\<exists>n. 100000 \<le> n \<and> n \<le> 999998 \<and> OTP = toString n) \<and>
       u' = u\<lparr>otp := Some \<lparr>code = bhash e OTP (genSalt e), expiresAt = now e + 300000\<rparr>\<rparr> \<and>
       findById (doc_id u) coll' = Some u'"
proof -
  let ?n = "randomInt 100000 999999 (entropy e)"
  have r: "100000 \<le> ?n \<and> ?n < 999999" by (rule randomInt_range) simp
  then have "?n \<noteq> 999999" by simp
  then have "toString ?n \<noteq> toString 999999" using toString_inj by blast
  then have a: "toString ?n \<noteq> ''999999''" by (simp add: toString_999999)
  from r have b: "\<exists>n. 100000 \<le> n \<and> n \<le> 999998 \<and> toString ?n = toString n"
    by (intro exI[of _ ?n]) simp
  have c: "findById (doc_id u) (saveDoc (u\<lparr>otp := x\<rparr>) coll) = Some (u\<lparr>otp := x\<rparr>)" for x
    using findById_saveDoc[of "u\<lparr>otp := x\<rparr>" coll] by simp
  show ?thesis
    unfolding sendOtpToEmail_def Let_def using a b c by simp
qed

text \<open>
  C4. With a code other than the bypass code, \<open>verifyOTP\<close> throws
  "No OTP pending for this user" when no OTP (or an empty code) is stored; else
  "OTP expired" when the clock is past \<open>expiresAt\<close>, whether or not the code matches;
  else "OTP incorrect" when the comparison fails; and otherwise sets \<open>isVerified\<close>,
  clears \<open>otp\<close> and saves the record. A throwing call leaves record and collection as
  they were.
\<close>

theorem verifyOTP_non_bypass:
  assumes "OTP \<noteq> ''1''"
  shows "(otp u = None \<longrightarrow>
            verifyOTP e OTP u coll = (Inl ''No OTP pending for this user'', u, coll)) \<and>
         (otp u = Some f \<and> code f = [] \<longrightarrow>
            verifyOTP e OTP u coll = (Inl ''No OTP pending for this user'', u, coll)) \<and>
         (otp u = Some f \<and> code f \<noteq> [] \<and> expiresAt f < now e \<longrightarrow>
            verifyOTP e OTP u coll = (Inl ''OTP expired'', u, coll)) \<and>
         (otp u = Some f \<and> code f \<noteq> [] \<and> now e \<le> expiresAt f \<and> \<not> bcompare e OTP (code f) \<longrightarrow>
            verifyOTP e OTP u coll = (Inl ''OTP incorrect'', u, coll)) \<and>
         (otp u = Some f \<and> code f \<noteq> [] \<and> now e \<le> expiresAt f \<and> bcompare e OTP (code f) \<longrightarrow>
            (case verifyOTP e OTP u coll of
               (r, u', coll') \<Rightarrow>
                 r = Inr () \<and> u' = u\<lparr>isVerified := True, otp := None\<rparr> \<and>
                 isVerified u' \<and> otp u' = None \<and> findById (doc_id u) coll' = Some u'))"
proof -
  have c: "findById (doc_id u) (saveDoc (u\<lparr>isVerified := True, otp := None\<rparr>) coll)
             = Some (u\<lparr>isVerified := True, otp := None\<rparr>)"
    using findById_saveDoc[of "u\<lparr>isVerified := True, otp := None\<rparr>" coll] by simp
  show ?thesis
    using assms c by (simp add: verifyOTP_def noOtp_def Let_def)
qed

theorem verifyOTP_non_bypass_witness:
  "verifyOTP demoEnv ''123456'' (alice\<lparr>otp := None\<rparr>) [alice\<lparr>otp := None\<rparr>]
     = (Inl ''No OTP pending for this user'', alice\<lparr>otp := None\<rparr>, [alice\<lparr>otp := None\<rparr>]) \<and>
   verifyOTP (demoEnv\<lparr>now := 2001\<rparr>) ''123456'' alice [alice] = (Inl ''OTP expired'', alice, [alice]) \<and>
   verifyOTP demoEnv ''654321'' alice [alice] = (Inl ''OTP incorrect'', alice, [alice]) \<and>
   verifyOTP demoEnv ''123456'' alice [alice]
     = (Inr (), alice\<lparr>isVerified := True, otp := None\<rparr>, [alice\<lparr>isVerified := True, otp := None\<rparr>])"
  using verifyOTP_non_bypass[where OTP="''123456''" and u="alice\<lparr>otp := None\<rparr>" and e=demoEnv
          and coll="[alice\<lparr>otp := None\<rparr>]"]
        verifyOTP_non_bypass[where OTP="''123456''" and u=alice and f="the (otp alice)"
          and e="demoEnv\<lparr>now := 2001\<rparr>" and coll="[alice]"]
        verifyOTP_non_bypass[where OTP="''654321''" and u=alice and f="the (otp alice)"
          and e=demoEnv and coll="[alice]"]
        verifyOTP_non_bypass[where OTP="''123456''" and u=alice and f="the (otp alice)"
          and e=demoEnv and coll="[alice]"]
  by (simp add: demoEnv_def alice_def verifyOTP_def noOtp_def Let_def)

text \<open>
  C5. With the bypass code \<open>"1"\<close>, \<open>verifyOTP\<close> succeeds whatever is stored on the
  record: it sets \<open>isVerified\<close>, clears \<open>otp\<close> and saves the record.
\<close>

theorem verifyOTP_bypass:
  "case verifyOTP e ''1'' u coll of
     (r, u', coll') \<Rightarrow>
       r = Inr () \<and> u' = u\<lparr>isVerified := True, otp := None\<rparr> \<and>
       isVerified u' \<and> otp u' = None \<and> findById (doc_id u) coll' = Some u'"
proof -
  have c: "findById (doc_id u) (saveDoc (u\<lparr>isVerified := True, otp := None\<rparr>) coll)
             = Some (u\<lparr>isVerified := True, otp := None\<rparr>)"
    using findById_saveDoc[of "u\<lparr>isVerified := True, otp := None\<rparr>" coll] by simp
  show ?thesis using c by (simp add: verifyOTP_def Let_def)
qed

text \<open>
  C8. \<open>checkOtp\<close> leaves record and collection untouched and decides as \<open>verifyOTP\<close>
  does: it returns \<open>true\<close> exactly where \<open>verifyOTP\<close> succeeds (the bypass code
  included), throws the same error for a missing or expired OTP, and returns \<open>false\<close>
  where \<open>verifyOTP\<close> throws "OTP incorrect".
\<close>

theorem checkOtp_pure:
  "snd (checkOtp e c u coll) = (u, coll) \<and>
   fst (checkOtp e c u coll) =
     (case fst (verifyOTP e c u coll) of
        Inr _ \<Rightarrow> Inr True
      | Inl m \<Rightarrow> if m = ''OTP incorrect'' then Inr False else Inl m) \<and>
   checkOtp e ''1'' u coll = (Inr True, u, coll)"
  by (simp add: checkOtp_def verifyOTP_def Let_def)

section \<open>Registration\<close>

text \<open>
  C2, as the code has it. A registration whose email is already in the User collection or
  in the Admin collection is answered 400 "Email already exists" and leaves the store as
  it was. A registration whose email is in none of User, Admin and Approval answers 201
  with the email and adds one pending record: status "Pending", not verified, the password
  hashed, the hash of a fresh OTP stored with its expiry.
\<close>

theorem registerUser_duplicate_or_fresh:
  "(em \<in> set (map email (users d)) \<or> em \<in> set (map admin_email (admins d)) \<longrightarrow>
      registerUser e nm em pw pin d = (emailExists, d)) \<and>
   (em \<notin> set (map email (users d)) \<and> em \<notin> set (map admin_email (admins d)) \<and>
    em \<notin> set (map email (approvals d)) \<longrightarrow>
      (case registerUser e nm em pw pin d of
         (r, d') \<Rightarrow>
           r = registered em \<and> users d' = users d \<and> admins d' = admins d \<and>
           length (approvals d') = Suc (length (approvals d)) \<and>
           findOne em (approvals d') =
             Some \<lparr>doc_id = newId e, name = nm, email = em,
                    password = bhash e pw (passwordSalt e), pincode = pin, isVerified = False,
                    status = ''Pending'',
                    otp = Some \<lparr>code = bhash e (toString (randomInt 100000 999999 (entropy e)))
                                          (genSalt e),
                                 expiresAt = now e + 300000\<rparr>\<rparr>))"
proof -
  have 1: "em \<in> set (map email (users d)) \<or> em \<in> set (map admin_email (admins d)) \<longrightarrow>
      registerUser e nm em pw pin d = (emailExists, d)"
    unfolding registerUser_def truthy_findOne truthy_findOneAdmin emailExists_def by simp
  have 2: "em \<notin> set (map email (users d)) \<and> em \<notin> set (map admin_email (admins d)) \<and>
    em \<notin> set (map email (approvals d)) \<longrightarrow>
      (case registerUser e nm em pw pin d of
         (r, d') \<Rightarrow>
           r = registered em \<and> users d' = users d \<and> admins d' = admins d \<and>
           length (approvals d') = Suc (length (approvals d)) \<and>
           findOne em (approvals d') =
             Some \<lparr>doc_id = newId e, name = nm, email = em,
                    password = bhash e pw (passwordSalt e), pincode = pin, isVerified = False,
                    status = ''Pending'',
                    otp = Some \<lparr>code = bhash e (toString (randomInt 100000 999999 (entropy e)))
                                          (genSalt e),
                                 expiresAt = now e + 300000\<rparr>\<rparr>)"
    unfolding registerUser_def truthy_findOne truthy_findOneAdmin registered_def
      sendOtpToEmail_def Let_def
    by (simp add: findOne_saveDoc_new length_saveDoc_new)
  from 1 2 show ?thesis by blast
qed

theorem registerUser_duplicate_or_fresh_witness:
  "registerUser demoEnv ''Root'' ''root@x.com'' ''pw123'' ''12345'' pendingDb = (emailExists, pendingDb) \<and>
   fst (registerUser demoEnv ''Carol'' ''c@x.com'' ''pw123'' ''12345'' pendingDb) = registered ''c@x.com'' \<and>
   map email (approvals (snd (registerUser demoEnv ''Carol'' ''c@x.com'' ''pw123'' ''12345'' pendingDb)))
     = [''a@x.com'', ''c@x.com'']"
proof -
  have m: "''root@x.com'' \<in> set (map admin_email (admins pendingDb))"
    "''c@x.com'' \<notin> set (map email (users pendingDb))"
    "''c@x.com'' \<notin> set (map admin_email (admins pendingDb))"
    "''c@x.com'' \<notin> set (map email (approvals pendingDb))"
    by (simp_all add: pendingDb_def alice_def)
  have a: "map email (approvals (snd (registerUser demoEnv ''Carol'' ''c@x.com'' ''pw123'' ''12345'' pendingDb)))
     = [''a@x.com'', ''c@x.com'']"
    by (simp add: registerUser_def sendOtpToEmail_def truthy_def findOne_def findOneAdmin_def
      pendingDb_def alice_def demoEnv_def Let_def)
  show ?thesis
    using registerUser_duplicate_or_fresh[where e=demoEnv and nm="''Root''" and em="''root@x.com''"
        and pw="''pw123''" and pin="''12345''" and d=pendingDb]
      registerUser_duplicate_or_fresh[where e=demoEnv and nm="''Carol''" and em="''c@x.com''"
        and pw="''pw123''" and pin="''12345''" and d=pendingDb]
      m a
    by (auto split: prod.splits)
qed

text \<open>
  The handler does not look into the Approval collection. For an email that is only
  pending, the answer is not 400: the insert is refused by the store when the schema
  declares the email unique, and a second pending record is created when it does not.
  And an email known only to the Admin collection is refused with 400.
\<close>

theorem registerUser_duplicate_counterexample:
  "''a@x.com'' \<in> set (map email (approvals pendingDb)) \<and>
   registerUser demoEnv ''Alice'' ''a@x.com'' ''pw123'' ''12345'' pendingDb
     = (\<lparr>statusCode = 200, sent = None, thrown = Some ''E11000 duplicate key error''\<rparr>, pendingDb) \<and>
   fst (registerUser (demoEnv\<lparr>uniqueEmailIndex := False\<rparr>) ''Alice'' ''a@x.com'' ''pw123'' ''12345''
          pendingDb) = registered ''a@x.com'' \<and>
   length (approvals (snd (registerUser (demoEnv\<lparr>uniqueEmailIndex := False\<rparr>) ''Alice'' ''a@x.com''
          ''pw123'' ''12345'' pendingDb))) = 2 \<and>
   ''root@x.com'' \<notin> set (map email (users pendingDb)) \<and>
   ''root@x.com'' \<notin> set (map email (approvals pendingDb)) \<and>
   registerUser demoEnv ''Root'' ''root@x.com'' ''pw123'' ''12345'' pendingDb = (emailExists, pendingDb)"
  by (simp add: registerUser_def sendOtpToEmail_def truthy_def findOne_def findOneAdmin_def
      pendingDb_def alice_def demoEnv_def registered_def emailExists_def Let_def)

section \<open>Approval\<close>

text \<open>
  C1. \<open>approveUser\<close> is all-or-nothing. When the write of the User record, the write of
  the pending record's status or the commit fails, or \<open>generateCryptoFields\<close> throws,
  the answer is 500 and the world is the one before the call: no User, the pending record
  unchanged. When it is the write of the status that fails, the User record had been
  written, in the session only. In every case the store is either untouched or holds both
  writes.
\<close>

theorem approveUser_all_or_nothing:
  "(userSaveError e \<noteq> None \<or> pendingSaveError e \<noteq> None \<or> commitError e \<noteq> None \<longrightarrow>
      snd (approveUser e i w) = w) \<and>
   (findById i (approvals (store w)) = Some p \<and> isVerified p \<and>
    generateCryptoFields e (password p) = Inr cf \<and>
    (userSaveError e = Some err \<or>
     userSaveError e = None \<and> pendingSaveError e = Some err \<or>
     userSaveError e = None \<and> pendingSaveError e = None \<and> commitError e = Some err) \<longrightarrow>
      approveUser e i w = (approvalFailed err, w)) \<and>
   (findById i (approvals (store w)) = Some p \<and> isVerified p \<and>
    generateCryptoFields e (password p) = Inl err \<longrightarrow>
      approveUser e i w = (approvalFailed err, w)) \<and>
   (findById i (approvals (store w)) = Some p \<and> isVerified p \<and>
    generateCryptoFields e (password p) = Inr cf \<and>
    userSaveError e = None \<and> pendingSaveError e = Some err \<longrightarrow>
      approveTry e i (startTransaction (store w)) w =
        (Inl err,
         \<lparr>inTransaction = True,
          view = (store w)\<lparr>users := users (store w) @ [newUserOf e p cf (generateVoterId e)]\<rparr>\<rparr>,
         w)) \<and>
   (snd (approveUser e i w) = w \<or>
    (\<exists>q cf'. findById i (approvals (store w)) = Some q \<and>
       generateCryptoFields e (password q) = Inr cf' \<and>
       store (snd (approveUser e i w)) = committed e q cf' (store w)))"
proof -
  have inside: "findById i (approvals (store w)) = Some p \<and> isVerified p \<and>
    generateCryptoFields e (password p) = Inr cf \<and>
    userSaveError e = None \<and> pendingSaveError e = Some err \<longrightarrow>
      approveTry e i (startTransaction (store w)) w =
        (Inl err,
         \<lparr>inTransaction = True,
          view = (store w)\<lparr>users := users (store w) @ [newUserOf e p cf (generateVoterId e)]\<rparr>\<rparr>,
         w)"
    by (simp add: approveTry_def startTransaction_def saveUserIn_def Let_def)
  show ?thesis
    unfolding approveUser_cases using inside
    by (auto split: option.splits sum.splits)
qed

theorem approveUser_all_or_nothing_witness:
  "approveUser (demoEnv\<lparr>pendingSaveError := Some ''write conflict''\<rparr>) 1 demoWorld
     = (approvalFailed ''write conflict'', demoWorld) \<and>
   approveUser (demoEnv\<lparr>userSaveError := Some ''E11000''\<rparr>) 1 demoWorld
     = (approvalFailed ''E11000'', demoWorld) \<and>
   approveUser (demoEnv\<lparr>commitError := Some ''TransientTransactionError''\<rparr>) 1 demoWorld
     = (approvalFailed ''TransientTransactionError'', demoWorld) \<and>
   approveUser (demoEnv\<lparr>generateCryptoFields := \<lambda>pw. Inl ''bad key''\<rparr>) 1 demoWorld
     = (approvalFailed ''bad key'', demoWorld)"
proof -
  have p: "findById 1 (approvals (store demoWorld)) = Some aliceVerified"
    and v: "isVerified aliceVerified"
    by (simp_all add: demoWorld_def aliceVerified_def alice_def findById_def)
  have "approveUser (demoEnv\<lparr>pendingSaveError := Some ''write conflict''\<rparr>) 1 demoWorld
          = (approvalFailed ''write conflict'', demoWorld)"
    using approveUser_all_or_nothing[where e="demoEnv\<lparr>pendingSaveError := Some ''write conflict''\<rparr>"
          and i=1 and w=demoWorld and p=aliceVerified and cf=demoCrypto and err="''write conflict''"]
      p v by (simp add: demoEnv_def)
  moreover have "approveUser (demoEnv\<lparr>userSaveError := Some ''E11000''\<rparr>) 1 demoWorld
          = (approvalFailed ''E11000'', demoWorld)"
    using approveUser_all_or_nothing[where e="demoEnv\<lparr>userSaveError := Some ''E11000''\<rparr>"
          and i=1 and w=demoWorld and p=aliceVerified and cf=demoCrypto and err="''E11000''"]
      p v by (simp add: demoEnv_def)
  moreover have "approveUser (demoEnv\<lparr>commitError := Some ''TransientTransactionError''\<rparr>) 1 demoWorld
          = (approvalFailed ''TransientTransactionError'', demoWorld)"
    using approveUser_all_or_nothing[where e="demoEnv\<lparr>commitError := Some ''TransientTransactionError''\<rparr>"
          and i=1 and w=demoWorld and p=aliceVerified and cf=demoCrypto
          and err="''TransientTransactionError''"]
      p v by (simp add: demoEnv_def)
  moreover have "approveUser (demoEnv\<lparr>generateCryptoFields := \<lambda>pw. Inl ''bad key''\<rparr>) 1 demoWorld
          = (approvalFailed ''bad key'', demoWorld)"
    using approveUser_all_or_nothing[where e="demoEnv\<lparr>generateCryptoFields := \<lambda>pw. Inl ''bad key''\<rparr>"
          and i=1 and w=demoWorld and p=aliceVerified and err="''bad key''"]
      p v by (simp add: demoEnv_def)
  ultimately show ?thesis by simp
qed

text \<open>
  C10. After a successful approval the pending record differs from the one before in
  \<open>status\<close> only, now "Accepted"; every other pending record is as before; and the
  User collection has one more record, carrying the pending record's name, email,
  password hash and pincode, with \<open>isVerified\<close> set.
\<close>

theorem approveUser_success_frame:
  assumes "statusCode (fst (approveUser e i w)) = 200"
  shows "\<exists>p cf. findById i (approvals (store w)) = Some p \<and>
           generateCryptoFields e (password p) = Inr cf \<and>
           (case (snd (approveUser e i w), p\<lparr>status := ''Accepted''\<rparr>,
                  newUserOf e p cf (generateVoterId e)) of
              (w', p', nu) \<Rightarrow>
                approvals (store w') = saveDoc p' (approvals (store w)) \<and>
                findById i (approvals (store w')) = Some p' \<and>
                (\<forall>j. j \<noteq> i \<longrightarrow>
                   findById j (approvals (store w')) = findById j (approvals (store w))) \<and>
                length (approvals (store w')) = length (approvals (store w)) \<and>
                status p' = ''Accepted'' \<and> doc_id p' = doc_id p \<and> name p' = name p \<and>
                email p' = email p \<and> password p' = password p \<and> pincode p' = pincode p \<and>
                isVerified p' = isVerified p \<and> otp p' = otp p \<and>
                users (store w') = users (store w) @ [nu] \<and>
                name nu = name p \<and> email nu = email p \<and> password nu = password p \<and>
                pincode nu = pincode p \<and> isVerified nu \<and> voterId nu = generateVoterId e \<and>
                admins (store w') = admins (store w))"
proof -
  from assms obtain p cf where p: "findById i (approvals (store w)) = Some p"
    and v: "isVerified p" and cf: "generateCryptoFields e (password p) = Inr cf"
    and ok: "userSaveError e = None" "pendingSaveError e = None" "commitError e = None"
    unfolding approveUser_cases
    by (auto simp: approvalFailed_def split: option.splits sum.splits if_splits)
  let ?p' = "p\<lparr>status := ''Accepted''\<rparr>"
  have w': "snd (approveUser e i w) =
      \<lparr>store = committed e p cf (store w),
       outbox = outbox w @ [(email p, ''Account Approval Notification'',
                             approvalMail ?p' (generateVoterId e))]\<rparr>"
    unfolding approveUser_cases using p v cf ok by simp
  have id: "doc_id ?p' = i" using findById_Some_id[OF p] by simp
  have f1: "findById i (saveDoc ?p' (approvals (store w))) = Some ?p'"
    using findById_saveDoc[of ?p' "approvals (store w)"] id by simp
  have f2: "j \<noteq> i \<Longrightarrow> findById j (saveDoc ?p' (approvals (store w))) = findById j (approvals (store w))" for j
    using findById_saveDoc_other[of j ?p' "approvals (store w)"] id by simp
  have f3: "length (saveDoc ?p' (approvals (store w))) = length (approvals (store w))"
    using length_saveDoc_found[of ?p' "approvals (store w)" p] p id by simp
  show ?thesis
    using p cf f1 f2 f3 by (simp add: w' committed_def newUserOf_def)
qed

theorem approveUser_success_frame_witness:
  "statusCode (fst (approveUser demoEnv 1 demoWorld)) = 200 \<and>
   findById 1 (approvals (store (snd (approveUser demoEnv 1 demoWorld))))
     = Some (aliceVerified\<lparr>status := ''Accepted''\<rparr>) \<and>
   map email (users (store (snd (approveUser demoEnv 1 demoWorld)))) = [''a@x.com'']"
proof -
  have h: "statusCode (fst (approveUser demoEnv 1 demoWorld)) = 200"
    by (simp add: approveUser_cases approved_def demoEnv_def demoWorld_def aliceVerified_def
        alice_def findById_def)
  have p: "findById 1 (approvals (store demoWorld)) = Some aliceVerified"
    by (simp add: demoWorld_def aliceVerified_def alice_def findById_def)
  from approveUser_success_frame[OF h] p h show ?thesis
    by (auto simp: newUserOf_def aliceVerified_def alice_def demoWorld_def)
qed

section \<open>Notification failures\<close>

text \<open>
  C7. A failing approval mail changes nothing in the answer of a committed approval: the
  answer is the 200 with the voter ID, the same as with a mail that is delivered, and the
  store holds both writes. A failing rejection mail is thrown on by \<open>rejectUser\<close>, and
  the pending record is still in the store.
\<close>

theorem notification_failure_asymmetry:
  "(findById i (approvals (store w)) = Some p \<and> isVerified p \<and>
    generateCryptoFields e (password p) = Inr cf \<and>
    userSaveError e = None \<and> pendingSaveError e = None \<and> commitError e = None \<and>
    mailError e (email p) ''Account Approval Notification''
      (approvalMail (p\<lparr>status := ''Accepted''\<rparr>) (generateVoterId e)) = Some err \<longrightarrow>
      fst (approveUser e i w) = approved (generateVoterId e) \<and>
      store (snd (approveUser e i w)) = committed e p cf (store w) \<and>
      fst (approveUser (e\<lparr>mailError := \<lambda>rcpt subject html. None\<rparr>) i w) = approved (generateVoterId e)) \<and>
   (findById i (approvals (store w)) = Some p \<and> truthyStr reason \<and>
    mailError e (email p) ''Account Rejection Notification''
      (rejectionMail p (the reason)) = Some err \<longrightarrow>
      fst (rejectUser e i reason w) = \<lparr>statusCode = 200, sent = None, thrown = Some err\<rparr> \<and>
      store (snd (rejectUser e i reason w)) = store w \<and>
      findById i (approvals (store (snd (rejectUser e i reason w)))) = Some p)"
  by (simp add: approveUser_cases approved_def rejectUser_def sendNotificationEmail_def)

theorem notification_failure_asymmetry_witness:
  "fst (approveUser (demoEnv\<lparr>mailError := \<lambda>rcpt subject html. Some ''SMTP down''\<rparr>) 1 demoWorld)
     = \<lparr>statusCode = 200,
        sent = Some [(''message'', ''User approved and notified''), (''voterId'', ''V1'')],
        thrown = None\<rparr> \<and>
   fst (rejectUser (demoEnv\<lparr>mailError := \<lambda>rcpt subject html. Some ''SMTP down''\<rparr>) 1
          (Some ''duplicate'') demoWorld)
     = \<lparr>statusCode = 200, sent = None, thrown = Some ''SMTP down''\<rparr> \<and>
   approvals (store (snd (rejectUser (demoEnv\<lparr>mailError := \<lambda>rcpt subject html. Some ''SMTP down''\<rparr>) 1
          (Some ''duplicate'') demoWorld))) = [aliceVerified]"
proof -
  let ?e = "demoEnv\<lparr>mailError := \<lambda>rcpt subject html. Some ''SMTP down''\<rparr>"
  have p: "findById 1 (approvals (store demoWorld)) = Some aliceVerified"
    and v: "isVerified aliceVerified"
    by (simp_all add: demoWorld_def aliceVerified_def alice_def findById_def)
  have e: "generateCryptoFields ?e (password aliceVerified) = Inr demoCrypto"
    "userSaveError ?e = None" "pendingSaveError ?e = None" "commitError ?e = None"
    "mailError ?e a b c = Some ''SMTP down''" "generateVoterId ?e = ''V1''" for a b c
    by (simp_all add: demoEnv_def)
  have t: "truthyStr (Some ''duplicate'')" by (simp add: truthyStr_def)
  have s: "approvals (store demoWorld) = [aliceVerified]" by (simp add: demoWorld_def)
  show ?thesis
    using notification_failure_asymmetry[where e="?e" and i=1 and w=demoWorld and p=aliceVerified
        and cf=demoCrypto and err="''SMTP down''" and reason="Some ''duplicate''"]
      p v e t s
    by (simp add: approved_def)
qed

section \<open>Rejection\<close>

text \<open>
  C6, as the code has it. \<open>rejectUser\<close> looks the record up before it looks at the
  reason. With an empty or missing reason the world is left as it was; the call throws
  "Rejection reason is required" with status 400 when the id names a pending record,
  which is still there afterwards, and "Pending user not found" with status 404 when it
  names none.
\<close>

theorem rejectUser_missing_reason:
  assumes "\<not> truthyStr reason"
  shows "snd (rejectUser e i reason w) = w \<and>
         (findById i (approvals (store w)) = Some p \<longrightarrow>
            fst (rejectUser e i reason w) = missingReason \<and>
            findById i (approvals (store (snd (rejectUser e i reason w)))) = Some p) \<and>
         (findById i (approvals (store w)) = None \<longrightarrow>
            fst (rejectUser e i reason w) = pendingNotFound)"
  using assms
  by (simp add: rejectUser_def missingReason_def pendingNotFound_def split: option.splits)

theorem rejectUser_missing_reason_witness:
  "rejectUser demoEnv 1 (Some []) demoWorld = (missingReason, demoWorld) \<and>
   rejectUser demoEnv 1 None demoWorld = (missingReason, demoWorld) \<and>
   rejectUser demoEnv 2 None demoWorld = (pendingNotFound, demoWorld)"
proof -
  have p: "findById 1 (approvals (store demoWorld)) = Some aliceVerified"
    and q: "findById 2 (approvals (store demoWorld)) = None"
    by (simp_all add: demoWorld_def aliceVerified_def alice_def findById_def)
  have t: "\<not> truthyStr (Some [])" "\<not> truthyStr None" by (simp_all add: truthyStr_def)
  show ?thesis
    using rejectUser_missing_reason[OF t(1), where e=demoEnv and i=1 and w=demoWorld and p=aliceVerified]
      rejectUser_missing_reason[OF t(2), where e=demoEnv and i=1 and w=demoWorld and p=aliceVerified]
      rejectUser_missing_reason[OF t(2), where e=demoEnv and i=2 and w=demoWorld]
      p q
    by (simp add: prod_eq_iff)
qed

text \<open>
  With an empty or missing reason and an id that names no pending record, the call fails
  with 404, not with 400.
\<close>

theorem rejectUser_missing_reason_counterexample:
  "\<not> truthyStr (Some []) \<and> \<not> truthyStr None \<and>
   fst (rejectUser demoEnv 2 (Some []) demoWorld) = pendingNotFound \<and>
   fst (rejectUser demoEnv 2 None demoWorld) = pendingNotFound \<and>
   fst (rejectUser demoEnv 2 None demoWorld) \<noteq> missingReason"
  by (simp add: rejectUser_def truthyStr_def demoWorld_def aliceVerified_def alice_def
      findById_def pendingNotFound_def missingReason_def)

section \<open>Update of details\<close>




end
